theory Spec2Isabelle
  imports Main
begin

section \<open>Python values and exceptions\<close>

text \<open>
  The client (\<^verbatim>\<open>cdev.py\<close>) handles values produced by \<^verbatim>\<open>json.loads\<close>: \<^verbatim>\<open>None\<close>,
  booleans, numbers, strings, lists and dictionaries. A dictionary is an association
  list, looked up with \<open>map_of\<close>.
\<close>

datatype json =
    JNull
  | JBool bool
  | JNum int
  | JStr string
  | JArr "json list"
  | JObj "(string \<times> json) list"

text \<open>
  Exceptions are values. \<open>CDevException code prefix e\<close> stands for
  \<^verbatim>\<open>CDevException(code, "prefix{0}".format(e))\<close>: its description is the prefix followed
  by the text of the exception \<open>e\<close> that was caught.
\<close>

datatype pyexn =
    KeyError string
  | TypeError
  | AttributeError string
  | JSONDecodeError
  | OtherError string
  | CDevException int string pyexn

fun bind_exn :: "pyexn + 'a \<Rightarrow> ('a \<Rightarrow> pyexn + 'b) \<Rightarrow> pyexn + 'b" where
  "bind_exn (Inl e) f = Inl e"
| "bind_exn (Inr v) f = f v"

text \<open>\<^verbatim>\<open>obj[k]\<close> for a string key: only a dictionary can answer; a missing key is a
  \<^verbatim>\<open>KeyError\<close>, and subscripting \<^verbatim>\<open>None\<close>, a number, a string or a list with a string
  is a \<^verbatim>\<open>TypeError\<close>.\<close>

fun getitem :: "json \<Rightarrow> string \<Rightarrow> pyexn + json" where
  "getitem (JObj kvs) k = (case map_of kvs k of None \<Rightarrow> Inl (KeyError k) | Some v \<Rightarrow> Inr v)"
| "getitem _ k = Inl TypeError"

text \<open>\<^verbatim>\<open>k in obj\<close> for a string \<open>k\<close>: key membership in a dictionary, element membership
  in a list, substring test in a string, \<^verbatim>\<open>TypeError\<close> otherwise.\<close>

fun is_substring :: "string \<Rightarrow> string \<Rightarrow> bool" where
  "is_substring k [] = (k = [])"
| "is_substring k (c # s) = (take (length k) (c # s) = k \<or> is_substring k s)"

fun py_in :: "string \<Rightarrow> json \<Rightarrow> pyexn + bool" where
  "py_in k (JObj kvs) = Inr (map_of kvs k \<noteq> None)"
| "py_in k (JArr xs) = Inr (JStr k \<in> set xs)"
| "py_in k (JStr s) = Inr (is_substring k s)"
| "py_in k _ = Inl TypeError"

text \<open>The idiom \<^verbatim>\<open>if 'k' in obj: self.k = obj['k']\<close>: the attribute is set or stays absent.\<close>

definition opt_item :: "json \<Rightarrow> string \<Rightarrow> pyexn + json option" where
  "opt_item obj k =
     bind_exn (py_in k obj) (\<lambda>present.
       if present then bind_exn (getitem obj k) (\<lambda>v. Inr (Some v)) else Inr None)"

text \<open>Iterating a value, as a list comprehension does: a list gives its elements, a
  dictionary its keys, a string its characters; anything else is not iterable.\<close>

fun py_iter :: "json \<Rightarrow> pyexn + json list" where
  "py_iter (JArr xs) = Inr xs"
| "py_iter (JObj kvs) = Inr (map (\<lambda>kv. JStr (fst kv)) kvs)"
| "py_iter (JStr s) = Inr (map (\<lambda>c. JStr [c]) s)"
| "py_iter _ = Inl TypeError"

fun map_exn :: "('a \<Rightarrow> pyexn + 'b) \<Rightarrow> 'a list \<Rightarrow> pyexn + 'b list" where
  "map_exn f [] = Inr []"
| "map_exn f (x # xs) = bind_exn (f x) (\<lambda>y. bind_exn (map_exn f xs) (\<lambda>ys. Inr (y # ys)))"

definition list_comprehension :: "(json \<Rightarrow> pyexn + 'b) \<Rightarrow> json \<Rightarrow> pyexn + 'b list" where
  "list_comprehension f v = bind_exn (py_iter v) (map_exn f)"

section \<open>Entity model\<close>

text \<open>
  Each class is a record; an attribute that \<^verbatim>\<open>__init__\<close> sets only under
  \<^verbatim>\<open>if 'k' in obj\<close> is an \<open>option\<close> field, \<open>None\<close> meaning that the object has no such
  attribute. Fields carry a prefix for their class, since Python reuses the names
  \<^verbatim>\<open>id\<close>, \<^verbatim>\<open>name\<close>, \<^verbatim>\<open>xml\<close> and \<^verbatim>\<open>file\<close> across classes: \<open>ns_\<close> Namespace,
  \<open>ce_\<close> CodeEntity, \<open>f_\<close> File, \<open>q_\<close> Query, \<open>op_\<close> Operation, \<open>fo_\<close> FileOperation,
  \<open>xo_\<close> XMLOperation, \<open>qo_\<close> QueryOperation. Subclasses are record extensions.
\<close>

record Root =
  root_namespaces :: json

record Namespace =
  ns_id :: json
  ns_name :: json
  ns_files :: json
  ns_xml :: json
  ns_queries :: json

record CodeEntity =
  ce_id :: json
  ce_content :: "json option"

record File = CodeEntity +
  f_name :: json
  f_generatedfiles :: "json option"
  f_url :: "json option"
  f_xml :: "json option"

type_synonym XML = CodeEntity

record Query = CodeEntity +
  q_plan :: json
  q_cached :: json

definition Root_init :: "json \<Rightarrow> pyexn + Root" where
  "Root_init obj =
     bind_exn (getitem obj ''namespaces'') (\<lambda>n. Inr \<lparr>root_namespaces = n\<rparr>)"

definition Namespace_init :: "json \<Rightarrow> pyexn + Namespace" where
  "Namespace_init obj =
     bind_exn (getitem obj ''id'') (\<lambda>i.
     bind_exn (getitem obj ''name'') (\<lambda>n.
     bind_exn (getitem obj ''files'') (\<lambda>f.
     bind_exn (getitem obj ''xml'') (\<lambda>x.
     bind_exn (getitem obj ''queries'') (\<lambda>q.
       Inr \<lparr>ns_id = i, ns_name = n, ns_files = f, ns_xml = x, ns_queries = q\<rparr>)))))"

definition CodeEntity_init :: "json \<Rightarrow> pyexn + CodeEntity" where
  "CodeEntity_init obj =
     bind_exn (getitem obj ''id'') (\<lambda>i.
     bind_exn (opt_item obj ''content'') (\<lambda>c.
       Inr \<lparr>ce_id = i, ce_content = c\<rparr>))"

definition File_init :: "json \<Rightarrow> pyexn + File" where
  "File_init obj =
     bind_exn (CodeEntity_init obj) (\<lambda>super.
     bind_exn (getitem obj ''name'') (\<lambda>n.
     bind_exn (opt_item obj ''generatedfiles'') (\<lambda>g.
     bind_exn (opt_item obj ''url'') (\<lambda>u.
     bind_exn (opt_item obj ''xml'') (\<lambda>x.
       Inr \<lparr>ce_id = ce_id super, ce_content = ce_content super,
            f_name = n, f_generatedfiles = g, f_url = u, f_xml = x\<rparr>)))))"

definition XML_init :: "json \<Rightarrow> pyexn + XML" where
  "XML_init obj = CodeEntity_init obj"

definition Query_init :: "json \<Rightarrow> pyexn + Query" where
  "Query_init obj =
     bind_exn (CodeEntity_init obj) (\<lambda>super.
     bind_exn (getitem obj ''plan'') (\<lambda>p.
     bind_exn (getitem obj ''cached'') (\<lambda>c.
       Inr \<lparr>ce_id = ce_id super, ce_content = ce_content super, q_plan = p, q_cached = c\<rparr>)))"


section \<open>Operation results\<close>

record Operation =
  op_success :: json
  op_errors :: "json option"

record FileOperation = Operation +
  fo_file :: "File option"

record XMLOperation = Operation +
  xo_xml :: "XML option"
  xo_file :: "File option"

record QueryOperation = Operation +
  qo_resultset :: "json option"
  qo_query :: "Query option"

text \<open>The idiom \<^verbatim>\<open>if 'k' in obj: self.k = C(obj['k'])\<close> for an entity class \<open>C\<close>.\<close>

definition opt_entity :: "(json \<Rightarrow> pyexn + 'a) \<Rightarrow> json \<Rightarrow> string \<Rightarrow> pyexn + 'a option" where
  "opt_entity init obj k =
     bind_exn (py_in k obj) (\<lambda>present.
       if present
       then bind_exn (getitem obj k) (\<lambda>v. bind_exn (init v) (\<lambda>e. Inr (Some e)))
       else Inr None)"

definition Operation_init :: "json \<Rightarrow> pyexn + Operation" where
  "Operation_init obj =
     bind_exn (getitem obj ''success'') (\<lambda>s.
     bind_exn (opt_item obj ''errors'') (\<lambda>e.
       Inr \<lparr>op_success = s, op_errors = e\<rparr>))"

definition FileOperation_init :: "json \<Rightarrow> pyexn + FileOperation" where
  "FileOperation_init obj =
     bind_exn (Operation_init obj) (\<lambda>super.
     bind_exn (opt_entity File_init obj ''file'') (\<lambda>f.
       Inr \<lparr>op_success = op_success super, op_errors = op_errors super, fo_file = f\<rparr>))"

definition XMLOperation_init :: "json \<Rightarrow> pyexn + XMLOperation" where
  "XMLOperation_init obj =
     bind_exn (Operation_init obj) (\<lambda>super.
     bind_exn (opt_entity XML_init obj ''xml'') (\<lambda>x.
     bind_exn (opt_entity File_init obj ''file'') (\<lambda>f.
       Inr \<lparr>op_success = op_success super, op_errors = op_errors super,
            xo_xml = x, xo_file = f\<rparr>)))"

definition QueryOperation_init :: "json \<Rightarrow> pyexn + QueryOperation" where
  "QueryOperation_init obj =
     bind_exn (Operation_init obj) (\<lambda>super.
     bind_exn (opt_item obj ''resultset'') (\<lambda>r.
     bind_exn (opt_entity Query_init obj ''query'') (\<lambda>q.
       Inr \<lparr>op_success = op_success super, op_errors = op_errors super,
            qo_resultset = r, qo_query = q\<rparr>)))"

section \<open>Transport\<close>

text \<open>
  A request is what \<^verbatim>\<open>_request\<close> hands to \<^verbatim>\<open>urllib.request.Request\<close>: the URL, the
  headers, the method, and the value whose \<^verbatim>\<open>json.dumps(...).encode()\<close> is the body
  (\<open>None\<close> when no body is sent).
\<close>

record Request =
  req_url :: string
  req_headers :: "(string \<times> string) list"
  req_data :: "json option"
  req_method :: string

text \<open>
  What \<^verbatim>\<open>urllib.request.urlopen\<close> does with a request is the environment's choice:
  \<^item> \<open>Response b\<close>: a response arrives; \<open>b\<close> tells what
    \<^verbatim>\<open>json.loads(response.read().decode())\<close> makes of its body, a value or a
    \<^verbatim>\<open>JSONDecodeError\<close>;
  \<^item> \<open>HTTPError b\<close>: the server answered with an error status; \<^verbatim>\<open>urllib.error.HTTPError\<close>
    is a \<^verbatim>\<open>URLError\<close> that is also a response, so \<^verbatim>\<open>e.read()\<close> gives its body \<open>b\<close>;
  \<^item> \<open>URLError r\<close>: no HTTP exchange happened (connection refused, unknown host);
    \<^verbatim>\<open>urllib.error.URLError\<close> has a \<^verbatim>\<open>reason\<close> and no \<^verbatim>\<open>read\<close> attribute;
  \<^item> \<open>Raises e\<close>: an exception that is not a \<^verbatim>\<open>URLError\<close>.
\<close>

datatype body = Json json | Malformed string

datatype urlopen_outcome =
    Response body
  | HTTPError string
  | URLError string
  | Raises pyexn

type_synonym server = "Request \<Rightarrow> urlopen_outcome"

text \<open>\<open>Error_Response b\<close> is the line \<^verbatim>\<open>print("Error Response: {0}".format(b))\<close>.\<close>

datatype diagnostic = Error_Response string

text \<open>A call has a result (an exception or a value), the requests it handed to
  \<^verbatim>\<open>urlopen\<close>, and the lines it printed.\<close>

record 'a outcome =
  result :: "pyexn + 'a"
  sent :: "Request list"
  printed :: "diagnostic list"

definition raises :: "pyexn \<Rightarrow> 'a outcome" where
  "raises e = \<lparr>result = Inl e, sent = [], printed = []\<rparr>"

definition decode :: "'a outcome \<Rightarrow> ('a \<Rightarrow> pyexn + 'b) \<Rightarrow> 'b outcome" where
  "decode out f = \<lparr>result = bind_exn (result out) f, sent = sent out, printed = printed out\<rparr>"

subsection \<open>Library functions: decimal text, UTF-8, base64\<close>

definition digit_char :: "nat \<Rightarrow> char" where
  "digit_char d = ''0123456789'' ! d"

fun decimal :: "nat \<Rightarrow> string" where
  "decimal n =
     (if n < 10 then [digit_char n] else decimal (n div 10) @ [digit_char (n mod 10)])"

declare decimal.simps [simp del]

definition str_int :: "int \<Rightarrow> string" where
  "str_int i = (if i < 0 then CHR ''-'' # decimal (nat (- i)) else decimal (nat i))"

definition utf8_encode :: "string \<Rightarrow> nat list" where
  "utf8_encode s =
     concat (map (\<lambda>c. let n = of_char c in
                        if n < 128 then [n] else [192 + n div 64, 128 + n mod 64]) s)"

definition b64_alphabet :: string where
  "b64_alphabet = ''ABCDEFGHIJKLMNOPQRSTUVWXYZabcdefghijklmnopqrstuvwxyz0123456789+/''"

definition b64_char :: "nat \<Rightarrow> char" where
  "b64_char n = b64_alphabet ! n"

fun b64encode :: "nat list \<Rightarrow> string" where
  "b64encode [] = []"
| "b64encode [a] =
     [b64_char (a div 4), b64_char (a mod 4 * 16), CHR ''='', CHR ''='']"
| "b64encode [a, b] =
     [b64_char (a div 4), b64_char (a mod 4 * 16 + b div 16), b64_char (b mod 16 * 4),
      CHR ''='']"
| "b64encode (a # b # c # rest) =
     [b64_char (a div 4), b64_char (a mod 4 * 16 + b div 16),
      b64_char (b mod 16 * 4 + c div 64), b64_char (c mod 64)] @ b64encode rest"


section \<open>The client\<close>

text \<open>
  \<^verbatim>\<open>__init__\<close> stores the four connection parameters before the discovery request and
  the \<^verbatim>\<open>namespaces\<close> locator after it, so \<^verbatim>\<open>_request\<close> and \<^verbatim>\<open>url_prefix\<close> work on
  any record that has the four parameters. The host and the credentials are strings and
  the port is an integer, as in \<^verbatim>\<open>test.py\<close> and in the argument parser.
\<close>

record Connection =
  host :: string
  port :: int
  username :: string
  password :: string

record CacheInstance = Connection +
  namespaces :: json

definition url_prefix :: "'c Connection_scheme \<Rightarrow> string" where
  "url_prefix self = ''http://'' @ host self @ '':'' @ str_int (port self)"

text \<open>The \<^verbatim>\<open>data\<close> argument of \<^verbatim>\<open>_request\<close>: \<^verbatim>\<open>None\<close>, a dictionary literal, or (from
  \<^verbatim>\<open>put_file\<close>) a File object.\<close>

datatype pydata = NoData | DictData "(string \<times> json) list" | FileData File

fun truthy :: "pydata \<Rightarrow> bool" where
  "truthy NoData = False"
| "truthy (DictData kvs) = (kvs \<noteq> [])"
| "truthy (FileData f) = True"

fun has_dict :: "pydata \<Rightarrow> bool" where
  "has_dict (FileData f) = True"
| "has_dict _ = False"

text \<open>The \<^verbatim>\<open>__dict__\<close> of a File: the attributes it has, in the order in which
  \<^verbatim>\<open>File.__init__\<close> sets them.\<close>

definition attribute :: "string \<Rightarrow> json option \<Rightarrow> (string \<times> json) list" where
  "attribute k v = (case v of None \<Rightarrow> [] | Some x \<Rightarrow> [(k, x)])"

definition File_dict :: "File \<Rightarrow> (string \<times> json) list" where
  "File_dict f =
     [(''id'', ce_id f)] @ attribute ''content'' (ce_content f) @ [(''name'', f_name f)]
     @ attribute ''generatedfiles'' (f_generatedfiles f) @ attribute ''url'' (f_url f)
     @ attribute ''xml'' (f_xml f)"

fun dict_of :: "pydata \<Rightarrow> pydata" where
  "dict_of (FileData f) = DictData (File_dict f)"
| "dict_of d = d"

text \<open>The argument of \<^verbatim>\<open>json.dumps\<close>, which rejects an object that is not a JSON value.\<close>

fun dumps_arg :: "pydata \<Rightarrow> pyexn + json" where
  "dumps_arg NoData = Inr JNull"
| "dumps_arg (DictData kvs) = Inr (JObj kvs)"
| "dumps_arg (FileData f) = Inl TypeError"

definition authorization :: "'c Connection_scheme \<Rightarrow> (string \<times> string) list" where
  "authorization self =
     (if username self \<noteq> [] \<and> password self \<noteq> []
      then [(''Authorization'',
             ''Basic '' @ b64encode (utf8_encode (username self @ '':'' @ password self)))]
      else [])"

text \<open>The end of \<^verbatim>\<open>_request\<close>: \<^verbatim>\<open>urlopen\<close> under \<^verbatim>\<open>except urllib.error.URLError as e\<close>,
  whose handler prints \<^verbatim>\<open>e.read()\<close> and returns \<^verbatim>\<open>None\<close>, then
  \<^verbatim>\<open>json.loads(response.read().decode())\<close>. On a \<^verbatim>\<open>URLError\<close> that is not an
  \<^verbatim>\<open>HTTPError\<close> the handler's \<^verbatim>\<open>e.read()\<close> raises \<^verbatim>\<open>AttributeError\<close> before anything is
  printed.\<close>

definition fetch :: "server \<Rightarrow> Request \<Rightarrow> json outcome" where
  "fetch srv request =
     (case srv request of
        Response (Json v) \<Rightarrow> \<lparr>result = Inr v, sent = [request], printed = []\<rparr>
      | Response (Malformed s) \<Rightarrow>
          \<lparr>result = Inl JSONDecodeError, sent = [request], printed = []\<rparr>
      | HTTPError b \<Rightarrow> \<lparr>result = Inr JNull, sent = [request], printed = [Error_Response b]\<rparr>
      | URLError r \<Rightarrow> \<lparr>result = Inl (AttributeError ''read''), sent = [request], printed = []\<rparr>
      | Raises e \<Rightarrow> \<lparr>result = Inl e, sent = [request], printed = []\<rparr>)"

text \<open>
  \<^verbatim>\<open>_request\<close> (a name cannot start with an underscore here), line by line:
  \<^item> a truthy \<^verbatim>\<open>data\<close> that has a \<^verbatim>\<open>__dict__\<close> is replaced by it;
  \<^item> \<^verbatim>\<open>requestData\<close> is the JSON text of \<^verbatim>\<open>data\<close> if \<^verbatim>\<open>data\<close> is truthy, else \<^verbatim>\<open>None\<close>;
  \<^item> \<^verbatim>\<open>requestHeaders\<close> starts with \<^verbatim>\<open>Content-Type\<close> under the same test;
  \<^item> \<^verbatim>\<open>requestUrl = self.url_prefix + url\<close> raises \<^verbatim>\<open>TypeError\<close> unless \<^verbatim>\<open>url\<close> is a string;
  \<^item> \<^verbatim>\<open>Authorization\<close> is added when \<^verbatim>\<open>self.username and self.password\<close> holds, which for
    strings means that neither is empty;
  \<^item> the request is opened and its answer decoded.
\<close>

definition request_py :: "'c Connection_scheme \<Rightarrow> server \<Rightarrow> json \<Rightarrow> string \<Rightarrow> pydata \<Rightarrow> json outcome" where
  "request_py self srv url method data0 =
     (let data = (if truthy data0 \<and> has_dict data0 then dict_of data0 else data0) in
      case (if truthy data then bind_exn (dumps_arg data) (\<lambda>v. Inr (Some v)) else Inr None) of
        Inl e \<Rightarrow> raises e
      | Inr requestData \<Rightarrow>
          (let requestHeaders =
                 (if truthy data then [(''Content-Type'', ''application/json'')] else []) in
           case url of
             JStr u \<Rightarrow>
               fetch srv
                 \<lparr>req_url = url_prefix self @ u,
                  req_headers = requestHeaders @ authorization self,
                  req_data = requestData,
                  req_method = method\<rparr>
           | _ \<Rightarrow> raises TypeError))"

definition CacheInstance_init :: "string \<Rightarrow> int \<Rightarrow> string \<Rightarrow> string \<Rightarrow> server \<Rightarrow> CacheInstance outcome" where
  "CacheInstance_init h web_server_port u p srv =
     (let self = \<lparr>host = h, port = web_server_port, username = u, password = p\<rparr>;
          out = request_py self srv (JStr ''/csp/sys/dev/'') ''GET'' NoData
      in case result out of
           Inl e \<Rightarrow>
             \<lparr>result = Inl (CDevException 44 ''Cannot Connect to Server: '' e),
              sent = sent out, printed = printed out\<rparr>
         | Inr data \<Rightarrow>
             (case Root_init data of
                Inl e \<Rightarrow>
                  \<lparr>result = Inl (CDevException 54 ''Invalid Server Response: '' e),
                   sent = sent out, printed = printed out\<rparr>
              | Inr root \<Rightarrow>
                  \<lparr>result = Inr \<lparr>host = h, port = web_server_port, username = u,
                                  password = p, namespaces = root_namespaces root\<rparr>,
                   sent = sent out, printed = printed out\<rparr>))"

definition get_namespaces :: "CacheInstance \<Rightarrow> server \<Rightarrow> Namespace list outcome" where
  "get_namespaces self srv =
     decode (request_py self srv (namespaces self) ''GET'' NoData)
       (list_comprehension Namespace_init)"

definition get_files :: "CacheInstance \<Rightarrow> server \<Rightarrow> Namespace \<Rightarrow> File list outcome" where
  "get_files self srv namespace =
     decode (request_py self srv (ns_files namespace) ''GET'' NoData)
       (list_comprehension File_init)"

definition get_file :: "CacheInstance \<Rightarrow> server \<Rightarrow> File \<Rightarrow> File outcome" where
  "get_file self srv file = decode (request_py self srv (ce_id file) ''GET'' NoData) File_init"

definition put_file :: "CacheInstance \<Rightarrow> server \<Rightarrow> File \<Rightarrow> FileOperation outcome" where
  "put_file self srv file =
     decode (request_py self srv (ce_id file) ''PUT'' (FileData file)) FileOperation_init"

definition add_file :: "CacheInstance \<Rightarrow> server \<Rightarrow> Namespace \<Rightarrow> json \<Rightarrow> json \<Rightarrow> FileOperation outcome" where
  "add_file self srv namespace filename filecontent =
     decode (request_py self srv (ns_files namespace) ''PUT''
               (DictData [(''name'', filename), (''content'', filecontent)]))
       FileOperation_init"

definition compile_file :: "CacheInstance \<Rightarrow> server \<Rightarrow> File \<Rightarrow> json \<Rightarrow> FileOperation outcome" where
  "compile_file self srv file spec =
     decode (request_py self srv (ce_id file) ''POST''
               (DictData [(''action'', JStr ''compile''), (''spec'', spec)]))
       FileOperation_init"

definition get_generated_files :: "CacheInstance \<Rightarrow> server \<Rightarrow> File \<Rightarrow> File list outcome" where
  "get_generated_files self srv file =
     (case f_generatedfiles file of
        Some g \<Rightarrow> decode (request_py self srv g ''GET'' NoData) (list_comprehension File_init)
      | None \<Rightarrow> \<lparr>result = Inr [], sent = [], printed = []\<rparr>)"

definition get_xml :: "CacheInstance \<Rightarrow> server \<Rightarrow> File \<Rightarrow> XML outcome" where
  "get_xml self srv file =
     (case f_xml file of
        None \<Rightarrow> raises (AttributeError ''xml'')
      | Some x \<Rightarrow> decode (request_py self srv x ''GET'' NoData) XML_init)"

definition put_xml :: "CacheInstance \<Rightarrow> server \<Rightarrow> XML \<Rightarrow> XMLOperation outcome" where
  "put_xml self srv xml =
     (case ce_content xml of
        None \<Rightarrow> raises (AttributeError ''content'')
      | Some c \<Rightarrow>
          decode (request_py self srv (ce_id xml) ''PUT'' (DictData [(''content'', c)]))
            XMLOperation_init)"

definition add_xml :: "CacheInstance \<Rightarrow> server \<Rightarrow> Namespace \<Rightarrow> json \<Rightarrow> XMLOperation outcome" where
  "add_xml self srv namespace content =
     decode (request_py self srv (ns_xml namespace) ''PUT'' (DictData [(''content'', content)]))
       XMLOperation_init"

definition add_query :: "CacheInstance \<Rightarrow> server \<Rightarrow> Namespace \<Rightarrow> json \<Rightarrow> QueryOperation outcome" where
  "add_query self srv namespace text =
     decode (request_py self srv (ns_queries namespace) ''PUT'' (DictData [(''content'', text)]))
       QueryOperation_init"

definition execute_query :: "CacheInstance \<Rightarrow> server \<Rightarrow> Query \<Rightarrow> QueryOperation outcome" where
  "execute_query self srv query =
     decode (request_py self srv (ce_id query) ''POST'' (DictData [(''action'', JStr ''execute'')]))
       QueryOperation_init"

text \<open>\<^verbatim>\<open>get_query_plan\<close> ends with \<^verbatim>\<open>return QueryOperation()\<close>, a call without the
  argument \<^verbatim>\<open>obj\<close> that \<^verbatim>\<open>QueryOperation.__init__(self, obj)\<close> requires: Python raises
  \<^verbatim>\<open>TypeError\<close> before \<^verbatim>\<open>__init__\<close> runs.\<close>

definition QueryOperation_noarg :: "pyexn + QueryOperation" where
  "QueryOperation_noarg = Inl TypeError"

definition get_query_plan :: "CacheInstance \<Rightarrow> server \<Rightarrow> Query \<Rightarrow> QueryOperation outcome" where
  "get_query_plan self srv query =
     decode (request_py self srv (q_plan query) ''GET'' NoData) (\<lambda>result. QueryOperation_noarg)"

section \<open>Sample servers and values\<close>

text \<open>A server that treats every request alike.\<close>

definition always :: "urlopen_outcome \<Rightarrow> server" where
  "always out request = out"

text \<open>The instance of \<^verbatim>\<open>test.py\<close>, after a discovery that answered
  \<^verbatim>\<open>{"namespaces": "/csp/sys/dev/namespaces"}\<close>, and one without a user name.\<close>

definition bigfoot :: CacheInstance where
  "bigfoot = \<lparr>host = ''bigfoot'', port = 57776, username = ''_SYSTEM'', password = ''SYS'',
              namespaces = JStr ''/csp/sys/dev/namespaces''\<rparr>"

definition anonymous :: CacheInstance where
  "anonymous = \<lparr>host = ''bigfoot'', port = 57776, username = [], password = ''SYS'',
                namespaces = JStr ''/csp/sys/dev/namespaces''\<rparr>"

definition samples :: Namespace where
  "samples = \<lparr>ns_id = JStr ''/csp/sys/dev/namespaces/SAMPLES'', ns_name = JStr ''SAMPLES'',
              ns_files = JStr ''/csp/sys/dev/namespaces/SAMPLES/files'',
              ns_xml = JStr ''/csp/sys/dev/namespaces/SAMPLES/xml'',
              ns_queries = JStr ''/csp/sys/dev/namespaces/SAMPLES/queries''\<rparr>"

text \<open>A file as a listing gives it (no content), and the same file after a fetch and a
  compilation.\<close>

definition listed_json :: json where
  "listed_json = JObj [(''id'', JStr ''/files/Sample.Person.cls''),
                       (''name'', JStr ''Sample.Person.cls'')]"

definition listed_file :: File where
  "listed_file = \<lparr>ce_id = JStr ''/files/Sample.Person.cls'', ce_content = None,
                  f_name = JStr ''Sample.Person.cls'', f_generatedfiles = None,
                  f_url = None, f_xml = None\<rparr>"


definition person_file :: File where
  "person_file = \<lparr>ce_id = JStr ''/files/Sample.Person.cls'',
                  ce_content = Some (JStr ''Class Sample.Person {}''),
                  f_name = JStr ''Sample.Person.cls'',
                  f_generatedfiles = Some (JStr ''/files/Sample.Person.cls/generated''),
                  f_url = None, f_xml = Some (JStr ''/xml/Sample.Person.cls'')\<rparr>"


definition person_query :: Query where
  "person_query = \<lparr>ce_id = JStr ''/queries/1'',
                   ce_content = Some (JStr ''SELECT Name FROM Sample.Person''),
                   q_plan = JStr ''/queries/1/plan'', q_cached = JBool False\<rparr>"

section \<open>Predicates of the statements\<close>

text \<open>\<open>answers srv out v\<close>: the call with outcome \<open>out\<close> issued one request, and the
  server answered it with a body that decodes to the JSON value \<open>v\<close>.\<close>

definition answers :: "server \<Rightarrow> 'a outcome \<Rightarrow> json \<Rightarrow> bool" where
  "answers srv out v = (case sent out of [r] \<Rightarrow> srv r = Response (Json v) | _ \<Rightarrow> False)"







text \<open>\<open>echoes self locator out\<close>: every request of the call went to the text
  \<^verbatim>\<open>http://{host}:{port}\<close> followed by the locator, a string, as it is.\<close>

definition echoes :: "'c Connection_scheme \<Rightarrow> json \<Rightarrow> 'a outcome \<Rightarrow> bool" where
  "echoes self locator out =
     list_all (\<lambda>r. case locator of
                     JStr u \<Rightarrow> req_url r = ''http://'' @ host self @ '':'' @ str_int (port self) @ u
                   | _ \<Rightarrow> False)
       (sent out)"

text \<open>The request of the discovery: a GET of the fixed path \<^verbatim>\<open>/csp/sys/dev/\<close>.\<close>

definition discovery_request :: "string \<Rightarrow> int \<Rightarrow> string \<Rightarrow> string \<Rightarrow> Request" where
  "discovery_request h p u pw =
     \<lparr>req_url = ''http://'' @ h @ '':'' @ str_int p @ ''/csp/sys/dev/'',
      req_headers = authorization \<lparr>host = h, port = p, username = u, password = pw\<rparr>,
      req_data = None, req_method = ''GET''\<rparr>"






section \<open>Facts about the transport\<close>

lemma decimal_small: "n < 10 \<Longrightarrow> decimal n = [digit_char n]"
  by (subst decimal.simps) simp

lemma decimal_large: "10 \<le> n \<Longrightarrow> decimal n = decimal (n div 10) @ [digit_char (n mod 10)]"
  by (subst decimal.simps) simp

lemma url_prefix_bigfoot: "url_prefix bigfoot = ''http://bigfoot:57776''"
  by (simp add: url_prefix_def bigfoot_def str_int_def decimal_small decimal_large digit_char_def)

lemma authorization_bigfoot:
  "authorization bigfoot = [(''Authorization'', ''Basic X1NZU1RFTTpTWVM='')]"
  by (simp add: authorization_def bigfoot_def utf8_encode_def b64_char_def b64_alphabet_def)

lemma url_prefix_anonymous: "url_prefix anonymous = ''http://bigfoot:57776''"
  by (simp add: url_prefix_def anonymous_def str_int_def decimal_small decimal_large digit_char_def)

lemma authorization_anonymous: "authorization anonymous = []"
  by (simp add: authorization_def anonymous_def)

lemma sent_fetch: "sent (fetch srv r) = [r]"
  by (simp add: fetch_def split: urlopen_outcome.splits body.splits)

lemma fetch_URLError:
  "srv r = URLError reason \<Longrightarrow>
     fetch srv r = \<lparr>result = Inl (AttributeError ''read''), sent = [r], printed = []\<rparr>"
  by (simp add: fetch_def)

lemma fetch_HTTPError:
  "srv r = HTTPError b \<Longrightarrow>
     fetch srv r = \<lparr>result = Inr JNull, sent = [r], printed = [Error_Response b]\<rparr>"
  by (simp add: fetch_def)

lemma fetch_Json:
  "srv r = Response (Json v) \<Longrightarrow> fetch srv r = \<lparr>result = Inr v, sent = [r], printed = []\<rparr>"
  by (simp add: fetch_def)

lemma fetch_Malformed:
  "srv r = Response (Malformed s) \<Longrightarrow>
     fetch srv r = \<lparr>result = Inl JSONDecodeError, sent = [r], printed = []\<rparr>"
  by (simp add: fetch_def)

lemma sent_decode: "sent (decode out f) = sent out"
  by (simp add: decode_def)

lemma result_decode: "result (decode out f) = bind_exn (result out) f"
  by (simp add: decode_def)

text \<open>The headers and the body that \<^verbatim>\<open>_request\<close> derives from its \<^verbatim>\<open>data\<close> argument.\<close>

lemma request_py_get:
  "request_py self srv (JStr u) m NoData =
     fetch srv \<lparr>req_url = url_prefix self @ u, req_headers = authorization self,
                req_data = None, req_method = m\<rparr>"
  by (simp add: request_py_def)

lemma request_py_dict:
  "kvs \<noteq> [] \<Longrightarrow>
   request_py self srv (JStr u) m (DictData kvs) =
     fetch srv \<lparr>req_url = url_prefix self @ u,
                req_headers = (''Content-Type'', ''application/json'') # authorization self,
                req_data = Some (JObj kvs), req_method = m\<rparr>"
  by (simp add: request_py_def)

lemma request_py_file:
  "request_py self srv (JStr u) m (FileData f) =
     fetch srv \<lparr>req_url = url_prefix self @ u,
                req_headers = (''Content-Type'', ''application/json'') # authorization self,
                req_data = Some (JObj (File_dict f)), req_method = m\<rparr>"
  by (simp add: request_py_def File_dict_def)

lemma sent_request_py:
  "r \<in> set (sent (request_py self srv url m d)) \<Longrightarrow>
     \<exists>u. url = JStr u \<and> req_url r = url_prefix self @ u \<and> req_method r = m \<and>
         req_headers r =
           (if truthy d then [(''Content-Type'', ''application/json'')] else [])
           @ authorization self \<and>
         req_data r =
           (case d of
              NoData \<Rightarrow> None
            | DictData kvs \<Rightarrow> (if kvs = [] then None else Some (JObj kvs))
            | FileData f \<Rightarrow> Some (JObj (File_dict f)))"
  by (cases d; cases url)
     (auto simp: request_py_def Let_def raises_def sent_fetch File_dict_def split: if_splits)

lemma map_of_authorization:
  "map_of (authorization self) ''Authorization'' =
     (if username self \<noteq> [] \<and> password self \<noteq> []
      then Some (''Basic '' @ b64encode (utf8_encode (username self @ '':'' @ password self)))
      else None)"
  by (simp add: authorization_def)

lemma map_of_attribute: "map_of (attribute k v) k' = (if k' = k then v else None)"
  by (cases v) (simp_all add: attribute_def)

lemma set_attribute: "fst ` set (attribute k v) \<subseteq> {k}"
  by (cases v) (simp_all add: attribute_def)

lemma File_dict_lookup:
  "map_of (File_dict f) ''id'' = Some (ce_id f)"
  "map_of (File_dict f) ''content'' = ce_content f"
  "map_of (File_dict f) ''name'' = Some (f_name f)"
  "map_of (File_dict f) ''generatedfiles'' = f_generatedfiles f"
  "map_of (File_dict f) ''url'' = f_url f"
  "map_of (File_dict f) ''xml'' = f_xml f"
  by (simp_all add: File_dict_def map_add_def map_of_attribute split: option.splits)

lemma File_dict_keys:
  "fst ` set (File_dict f) \<subseteq> {''id'', ''content'', ''name'', ''generatedfiles'', ''url'', ''xml''}"
  using set_attribute [of "''content''" "ce_content f"]
    set_attribute [of "''generatedfiles''" "f_generatedfiles f"]
    set_attribute [of "''url''" "f_url f"] set_attribute [of "''xml''" "f_xml f"]
  by (auto simp: File_dict_def)

lemma File_init_listed: "File_init listed_json = Inr listed_file"
  by (simp add: File_init_def CodeEntity_init_def opt_item_def listed_json_def listed_file_def)

section \<open>Soft transport failures\<close>

text \<open>
  Claim C1: a transport-level error, any \<^verbatim>\<open>URLError\<close> raised by the HTTP call, is not
  raised to the caller of \<^verbatim>\<open>_request\<close>; a diagnostic is printed and the result is
  \<^verbatim>\<open>None\<close>.

  The handler does this for an \<^verbatim>\<open>HTTPError\<close> (\<open>fetch_HTTPError\<close>). For a \<^verbatim>\<open>URLError\<close> that
  carries no response, such as a refused connection, the handler's own \<^verbatim>\<open>e.read()\<close>
  raises \<^verbatim>\<open>AttributeError\<close>: the caller gets an exception and nothing is printed.
\<close>

theorem URLError_escapes_request:
  "request_py bigfoot (always (URLError ''Connection refused''))
       (JStr ''/csp/sys/dev/namespaces'') ''GET'' NoData
     = \<lparr>result = Inl (AttributeError ''read''),
        sent = [\<lparr>req_url = ''http://bigfoot:57776/csp/sys/dev/namespaces'',
                 req_headers = [(''Authorization'', ''Basic X1NZU1RFTTpTWVM='')],
                 req_data = None, req_method = ''GET''\<rparr>],
        printed = []\<rparr>"
  by (simp add: request_py_get fetch_URLError always_def url_prefix_bigfoot authorization_bigfoot)

section \<open>Basic authentication\<close>

text \<open>
  Claim C7: every request issued by \<^verbatim>\<open>_request\<close> has the header \<^verbatim>\<open>Authorization\<close> with
  the value \<^verbatim>\<open>Basic\<close>, a space and the base64 text of \<^verbatim>\<open>username:password\<close> if and only
  if the stored user name and password are both non-empty; if either is empty the
  request has no \<^verbatim>\<open>Authorization\<close> header.
\<close>

theorem basic_authorization_iff_credentials:
  "\<forall>r \<in> set (sent (request_py self srv url m d)).
     (username self \<noteq> [] \<and> password self \<noteq> [] \<longrightarrow>
        map_of (req_headers r) ''Authorization'' =
          Some (''Basic '' @ b64encode (utf8_encode (username self @ '':'' @ password self))))
     \<and> (username self = [] \<or> password self = [] \<longrightarrow>
          map_of (req_headers r) ''Authorization'' = None)"
proof
  fix r assume "r \<in> set (sent (request_py self srv url m d))"
  then have "req_headers r =
      (if truthy d then [(''Content-Type'', ''application/json'')] else []) @ authorization self"
    using sent_request_py by blast
  then show "(username self \<noteq> [] \<and> password self \<noteq> [] \<longrightarrow>
        map_of (req_headers r) ''Authorization'' =
          Some (''Basic '' @ b64encode (utf8_encode (username self @ '':'' @ password self))))
     \<and> (username self = [] \<or> password self = [] \<longrightarrow>
          map_of (req_headers r) ''Authorization'' = None)"
    by (auto simp: map_add_def map_of_authorization)
qed

text \<open>The instance of \<^verbatim>\<open>test.py\<close> sends \<^verbatim>\<open>Basic X1NZU1RFTTpTWVM=\<close>, both with and
  without a body; the instance without a user name sends no such header.\<close>

theorem basic_authorization_iff_credentials_witness:
  "sent (request_py bigfoot (always (Response (Json JNull))) (JStr ''/csp/sys/dev/'') ''GET'' NoData)
     = [\<lparr>req_url = ''http://bigfoot:57776/csp/sys/dev/'',
         req_headers = [(''Authorization'', ''Basic X1NZU1RFTTpTWVM='')],
         req_data = None, req_method = ''GET''\<rparr>]
   \<and> username bigfoot \<noteq> [] \<and> password bigfoot \<noteq> []
   \<and> ''Basic '' @ b64encode (utf8_encode (username bigfoot @ '':'' @ password bigfoot))
       = ''Basic X1NZU1RFTTpTWVM=''
   \<and> sent (request_py anonymous (always (Response (Json JNull))) (JStr ''/q'') ''POST''
             (DictData [(''action'', JStr ''execute'')]))
     = [\<lparr>req_url = ''http://bigfoot:57776/q'',
         req_headers = [(''Content-Type'', ''application/json'')],
         req_data = Some (JObj [(''action'', JStr ''execute'')]), req_method = ''POST''\<rparr>]
   \<and> username anonymous = []
   \<and> map_of [(''Content-Type'', ''application/json'')] ''Authorization'' = None"
  using basic_authorization_iff_credentials
     [of bigfoot "always (Response (Json JNull))" "JStr ''/csp/sys/dev/''" "''GET''" NoData]
    basic_authorization_iff_credentials
     [of anonymous "always (Response (Json JNull))" "JStr ''/q''" "''POST''"
         "DictData [(''action'', JStr ''execute'')]"]
  by (simp add: request_py_get request_py_dict sent_fetch url_prefix_bigfoot
      authorization_bigfoot url_prefix_anonymous authorization_anonymous)
     (simp add: bigfoot_def anonymous_def utf8_encode_def b64_char_def b64_alphabet_def)

section \<open>The query plan\<close>

text \<open>
  Claim C8: for a Query with a \<^verbatim>\<open>plan\<close> locator, \<^verbatim>\<open>get_query_plan\<close> issues a GET to that
  locator, discards the decoded body and returns an empty QueryOperation rather than
  raising.

  The code never returns: whatever the server answers, \<^verbatim>\<open>QueryOperation()\<close> is
  called without its argument and raises \<^verbatim>\<open>TypeError\<close>.
\<close>

theorem get_query_plan_raises:
  "isl (result (get_query_plan self srv query))
   \<and> get_query_plan bigfoot (always (Response (Json (JStr ''Read index map'')))) person_query
       = \<lparr>result = Inl TypeError,
          sent = [\<lparr>req_url = ''http://bigfoot:57776/queries/1/plan'',
                   req_headers = [(''Authorization'', ''Basic X1NZU1RFTTpTWVM='')],
                   req_data = None, req_method = ''GET''\<rparr>],
          printed = []\<rparr>"
proof
  show "isl (result (get_query_plan self srv query))"
    by (cases "result (request_py self srv (q_plan query) ''GET'' NoData)")
       (simp_all add: get_query_plan_def decode_def QueryOperation_noarg_def)
  show "get_query_plan bigfoot (always (Response (Json (JStr ''Read index map'')))) person_query
       = \<lparr>result = Inl TypeError,
          sent = [\<lparr>req_url = ''http://bigfoot:57776/queries/1/plan'',
                   req_headers = [(''Authorization'', ''Basic X1NZU1RFTTpTWVM='')],
                   req_data = None, req_method = ''GET''\<rparr>],
          printed = []\<rparr>"
    by (simp add: get_query_plan_def decode_def QueryOperation_noarg_def person_query_def
        request_py_get fetch_Json always_def url_prefix_bigfoot authorization_bigfoot)
qed

section \<open>The body of an update\<close>

text \<open>
  Claim C9: for every File passed to \<^verbatim>\<open>put_file\<close>, the JSON body sent to the file's
  \<^verbatim>\<open>id\<close> locator is the serialization of the whole attribute set of the File (\<^verbatim>\<open>id\<close>,
  \<^verbatim>\<open>name\<close>, and each of \<^verbatim>\<open>content\<close>, \<^verbatim>\<open>generatedfiles\<close>, \<^verbatim>\<open>url\<close>, \<^verbatim>\<open>xml\<close> that it has),
  not only the \<^verbatim>\<open>content\<close>.
\<close>

theorem put_file_sends_whole_file:
  "\<forall>r \<in> set (sent (put_file self srv file)).
     (\<exists>u. ce_id file = JStr u \<and> req_url r = url_prefix self @ u) \<and> req_method r = ''PUT''
     \<and> (\<exists>kvs. req_data r = Some (JObj kvs)
          \<and> map_of kvs ''id'' = Some (ce_id file)
          \<and> map_of kvs ''name'' = Some (f_name file)
          \<and> map_of kvs ''content'' = ce_content file
          \<and> map_of kvs ''generatedfiles'' = f_generatedfiles file
          \<and> map_of kvs ''url'' = f_url file
          \<and> map_of kvs ''xml'' = f_xml file
          \<and> fst ` set kvs \<subseteq> {''id'', ''content'', ''name'', ''generatedfiles'', ''url'', ''xml''})"
proof
  fix r assume "r \<in> set (sent (put_file self srv file))"
  then have "r \<in> set (sent (request_py self srv (ce_id file) ''PUT'' (FileData file)))"
    by (simp add: put_file_def sent_decode)
  from sent_request_py [OF this]
  obtain u where u: "ce_id file = JStr u" "req_url r = url_prefix self @ u"
    "req_method r = ''PUT''" "req_data r = Some (JObj (File_dict file))"
    by auto
  show "(\<exists>u. ce_id file = JStr u \<and> req_url r = url_prefix self @ u) \<and> req_method r = ''PUT''
     \<and> (\<exists>kvs. req_data r = Some (JObj kvs)
          \<and> map_of kvs ''id'' = Some (ce_id file)
          \<and> map_of kvs ''name'' = Some (f_name file)
          \<and> map_of kvs ''content'' = ce_content file
          \<and> map_of kvs ''generatedfiles'' = f_generatedfiles file
          \<and> map_of kvs ''url'' = f_url file
          \<and> map_of kvs ''xml'' = f_xml file
          \<and> fst ` set kvs \<subseteq> {''id'', ''content'', ''name'', ''generatedfiles'', ''url'', ''xml''})"
    using u File_dict_lookup File_dict_keys by blast
qed

text \<open>The fetched file of the sample goes out with its five attributes, not only with
  its content.\<close>

theorem put_file_sends_whole_file_witness:
  "sent (put_file bigfoot (always (Response (Json (JObj [(''success'', JBool True)])))) person_file)
     = [\<lparr>req_url = ''http://bigfoot:57776/files/Sample.Person.cls'',
         req_headers = [(''Content-Type'', ''application/json''),
                        (''Authorization'', ''Basic X1NZU1RFTTpTWVM='')],
         req_data = Some (JObj [(''id'', JStr ''/files/Sample.Person.cls''),
                                (''content'', JStr ''Class Sample.Person {}''),
                                (''name'', JStr ''Sample.Person.cls''),
                                (''generatedfiles'', JStr ''/files/Sample.Person.cls/generated''),
                                (''xml'', JStr ''/xml/Sample.Person.cls'')]),
         req_method = ''PUT''\<rparr>]"
  using put_file_sends_whole_file
    [of bigfoot "always (Response (Json (JObj [(''success'', JBool True)])))" person_file]
  by (simp add: put_file_def sent_decode person_file_def request_py_file sent_fetch
      url_prefix_bigfoot authorization_bigfoot File_dict_def attribute_def)

section \<open>A file without an XML locator\<close>

text \<open>
  Claim C10: for every File that has no \<^verbatim>\<open>xml\<close> locator, \<^verbatim>\<open>get_xml\<close> raises an
  attribute-access error instead of returning a result or an empty value; unlike
  \<^verbatim>\<open>get_generated_files\<close>, which answers the empty list for a File without its
  locator, the access is unguarded.
\<close>

theorem get_xml_unguarded:
  "f_xml file = None \<Longrightarrow>
     get_xml self srv file = \<lparr>result = Inl (AttributeError ''xml''), sent = [], printed = []\<rparr>
     \<and> (f_generatedfiles file = None \<longrightarrow>
          get_generated_files self srv file = \<lparr>result = Inr [], sent = [], printed = []\<rparr>)"
  by (simp add: get_xml_def get_generated_files_def raises_def)

text \<open>A file decoded from a listing item has neither locator.\<close>

theorem get_xml_unguarded_witness:
  "File_init listed_json = Inr listed_file \<and> f_xml listed_file = None
   \<and> f_generatedfiles listed_file = None
   \<and> get_xml bigfoot (always (Response (Json JNull))) listed_file
       = \<lparr>result = Inl (AttributeError ''xml''), sent = [], printed = []\<rparr>
   \<and> get_generated_files bigfoot (always (Response (Json JNull))) listed_file
       = \<lparr>result = Inr [], sent = [], printed = []\<rparr>"
  using get_xml_unguarded [of listed_file bigfoot "always (Response (Json JNull))"]
  by (simp add: File_init_listed) (simp add: listed_file_def)

section \<open>Decoding entities\<close>

lemma opt_item_JObj: "opt_item (JObj kvs) k = Inr (map_of kvs k)"
  by (cases "map_of kvs k") (simp_all add: opt_item_def)

lemma CodeEntity_init_JObj:
  "CodeEntity_init (JObj kvs) =
     (case map_of kvs ''id'' of
        None \<Rightarrow> Inl (KeyError ''id'')
      | Some i \<Rightarrow> Inr \<lparr>ce_id = i, ce_content = map_of kvs ''content''\<rparr>)"
  by (simp add: CodeEntity_init_def opt_item_JObj split: option.splits)

lemma File_init_JObj:
  "File_init (JObj kvs) =
     (case map_of kvs ''id'' of
        None \<Rightarrow> Inl (KeyError ''id'')
      | Some i \<Rightarrow>
          (case map_of kvs ''name'' of
             None \<Rightarrow> Inl (KeyError ''name'')
           | Some n \<Rightarrow>
               Inr \<lparr>ce_id = i, ce_content = map_of kvs ''content'', f_name = n,
                    f_generatedfiles = map_of kvs ''generatedfiles'',
                    f_url = map_of kvs ''url'', f_xml = map_of kvs ''xml''\<rparr>))"
  by (simp add: File_init_def CodeEntity_init_JObj opt_item_JObj split: option.splits)

lemma Query_init_JObj:
  "Query_init (JObj kvs) =
     (case map_of kvs ''id'' of
        None \<Rightarrow> Inl (KeyError ''id'')
      | Some i \<Rightarrow>
          (case map_of kvs ''plan'' of
             None \<Rightarrow> Inl (KeyError ''plan'')
           | Some p \<Rightarrow>
               (case map_of kvs ''cached'' of
                  None \<Rightarrow> Inl (KeyError ''cached'')
                | Some c \<Rightarrow>
                    Inr \<lparr>ce_id = i, ce_content = map_of kvs ''content'', q_plan = p,
                         q_cached = c\<rparr>)))"
  by (simp add: Query_init_def CodeEntity_init_JObj split: option.splits)

lemma Namespace_init_missing:
  assumes "k \<in> {''id'', ''name'', ''files'', ''xml'', ''queries''}" and "map_of kvs k = None"
  shows "\<exists>k' \<in> {''id'', ''name'', ''files'', ''xml'', ''queries''}.
           map_of kvs k' = None \<and> Namespace_init (JObj kvs) = Inl (KeyError k')"
  using assms by (auto simp: Namespace_init_def split: option.splits)

text \<open>
  Claim C4: for each entity constructor (Namespace, File, XML, Query) applied to a
  decoded JSON object, a missing required field (\<^verbatim>\<open>id\<close>; \<^verbatim>\<open>name\<close>, \<^verbatim>\<open>files\<close>, \<^verbatim>\<open>xml\<close>,
  \<^verbatim>\<open>queries\<close> of a Namespace; \<^verbatim>\<open>name\<close> of a File; \<^verbatim>\<open>plan\<close>, \<^verbatim>\<open>cached\<close> of a Query) makes
  the construction fail with a decode error, here the \<^verbatim>\<open>KeyError\<close> of a missing field;
  every optional field (\<^verbatim>\<open>content\<close>, \<^verbatim>\<open>generatedfiles\<close>, \<^verbatim>\<open>url\<close>, \<^verbatim>\<open>xml\<close> of a File) that
  the object lacks is absent from the entity, and one that the object has is there with
  its value, so that an absent \<^verbatim>\<open>content\<close> differs from an empty one.
\<close>

theorem entity_constructors:
  "(\<forall>k \<in> {''id'', ''name'', ''files'', ''xml'', ''queries''}. map_of kvs k = None \<longrightarrow>
      (\<exists>k' \<in> {''id'', ''name'', ''files'', ''xml'', ''queries''}.
         map_of kvs k' = None \<and> Namespace_init (JObj kvs) = Inl (KeyError k')))
   \<and> (\<forall>k \<in> {''id'', ''name''}. map_of kvs k = None \<longrightarrow>
        (\<exists>k' \<in> {''id'', ''name''}.
           map_of kvs k' = None \<and> File_init (JObj kvs) = Inl (KeyError k')))
   \<and> (map_of kvs ''id'' = None \<longrightarrow> XML_init (JObj kvs) = Inl (KeyError ''id''))
   \<and> (\<forall>k \<in> {''id'', ''plan'', ''cached''}. map_of kvs k = None \<longrightarrow>
        (\<exists>k' \<in> {''id'', ''plan'', ''cached''}.
           map_of kvs k' = None \<and> Query_init (JObj kvs) = Inl (KeyError k')))
   \<and> (\<forall>f. File_init (JObj kvs) = Inr f \<longrightarrow>
          ce_content f = map_of kvs ''content''
          \<and> f_generatedfiles f = map_of kvs ''generatedfiles''
          \<and> f_url f = map_of kvs ''url'' \<and> f_xml f = map_of kvs ''xml'')
   \<and> (\<forall>x. XML_init (JObj kvs) = Inr x \<longrightarrow> ce_content x = map_of kvs ''content'')
   \<and> (\<forall>q. Query_init (JObj kvs) = Inr q \<longrightarrow> ce_content q = map_of kvs ''content'')"
proof (intro conjI)
  show "\<forall>k \<in> {''id'', ''name'', ''files'', ''xml'', ''queries''}. map_of kvs k = None \<longrightarrow>
      (\<exists>k' \<in> {''id'', ''name'', ''files'', ''xml'', ''queries''}.
         map_of kvs k' = None \<and> Namespace_init (JObj kvs) = Inl (KeyError k'))"
    using Namespace_init_missing by blast
  show "\<forall>k \<in> {''id'', ''name''}. map_of kvs k = None \<longrightarrow>
        (\<exists>k' \<in> {''id'', ''name''}.
           map_of kvs k' = None \<and> File_init (JObj kvs) = Inl (KeyError k'))"
    by (auto simp: File_init_JObj split: option.splits)
  show "map_of kvs ''id'' = None \<longrightarrow> XML_init (JObj kvs) = Inl (KeyError ''id'')"
    by (simp add: XML_init_def CodeEntity_init_JObj)
  show "\<forall>k \<in> {''id'', ''plan'', ''cached''}. map_of kvs k = None \<longrightarrow>
        (\<exists>k' \<in> {''id'', ''plan'', ''cached''}.
           map_of kvs k' = None \<and> Query_init (JObj kvs) = Inl (KeyError k'))"
    by (auto simp: Query_init_JObj split: option.splits)
  show "\<forall>f. File_init (JObj kvs) = Inr f \<longrightarrow>
          ce_content f = map_of kvs ''content''
          \<and> f_generatedfiles f = map_of kvs ''generatedfiles''
          \<and> f_url f = map_of kvs ''url'' \<and> f_xml f = map_of kvs ''xml''"
    by (auto simp: File_init_JObj split: option.splits)
  show "\<forall>x. XML_init (JObj kvs) = Inr x \<longrightarrow> ce_content x = map_of kvs ''content''"
    by (auto simp: XML_init_def CodeEntity_init_JObj split: option.splits)
  show "\<forall>q. Query_init (JObj kvs) = Inr q \<longrightarrow> ce_content q = map_of kvs ''content''"
    by (auto simp: Query_init_JObj split: option.splits)
qed

text \<open>Objects without a required field are rejected with the first field that is
  missing; a listing item gives a File without \<^verbatim>\<open>content\<close>, and an item with the empty
  text as \<^verbatim>\<open>content\<close> gives a different File.\<close>

theorem entity_constructors_witness:
  "File_init (JObj [(''name'', JStr ''Sample.Person.cls'')]) = Inl (KeyError ''id'')
   \<and> Namespace_init (JObj [(''id'', JStr ''/n''), (''name'', JStr ''USER'')]) = Inl (KeyError ''files'')
   \<and> Query_init (JObj [(''id'', JStr ''/q''), (''plan'', JStr ''/q/plan'')]) = Inl (KeyError ''cached'')
   \<and> XML_init (JObj [(''content'', JStr ''<Export/>'')]) = Inl (KeyError ''id'')
   \<and> File_init (JObj [(''id'', JStr ''/f''), (''name'', JStr ''a.mac'')])
       = Inr \<lparr>ce_id = JStr ''/f'', ce_content = None, f_name = JStr ''a.mac'',
              f_generatedfiles = None, f_url = None, f_xml = None\<rparr>
   \<and> File_init (JObj [(''id'', JStr ''/f''), (''name'', JStr ''a.mac''), (''content'', JStr [])])
       = Inr \<lparr>ce_id = JStr ''/f'', ce_content = Some (JStr []), f_name = JStr ''a.mac'',
              f_generatedfiles = None, f_url = None, f_xml = None\<rparr>
   \<and> XML_init (JObj [(''id'', JStr ''/x'')]) = Inr \<lparr>ce_id = JStr ''/x'', ce_content = None\<rparr>
   \<and> Query_init (JObj [(''id'', JStr ''/q''), (''plan'', JStr ''/q/plan''), (''cached'', JBool False)])
       = Inr \<lparr>ce_id = JStr ''/q'', ce_content = None, q_plan = JStr ''/q/plan'',
              q_cached = JBool False\<rparr>"
  using entity_constructors [of "[(''name'', JStr ''Sample.Person.cls'')]"]
    entity_constructors [of "[(''id'', JStr ''/f''), (''name'', JStr ''a.mac'')]"]
  by (simp add: File_init_JObj Namespace_init_def Query_init_JObj XML_init_def CodeEntity_init_JObj)

section \<open>Discovery\<close>

lemma discovery_request_py:
  "request_py \<lparr>host = h, port = p, username = u, password = pw\<rparr> srv
       (JStr ''/csp/sys/dev/'') ''GET'' NoData
     = fetch srv (discovery_request h p u pw)"
  by (simp add: request_py_get discovery_request_def url_prefix_def)

lemma CacheInstance_init_fetch:
  "CacheInstance_init h p u pw srv =
     (let out = fetch srv (discovery_request h p u pw)
      in case result out of
           Inl e \<Rightarrow>
             \<lparr>result = Inl (CDevException 44 ''Cannot Connect to Server: '' e),
              sent = sent out, printed = printed out\<rparr>
         | Inr data \<Rightarrow>
             (case Root_init data of
                Inl e \<Rightarrow>
                  \<lparr>result = Inl (CDevException 54 ''Invalid Server Response: '' e),
                   sent = sent out, printed = printed out\<rparr>
              | Inr root \<Rightarrow>
                  \<lparr>result = Inr \<lparr>host = h, port = p, username = u,
                                  password = pw, namespaces = root_namespaces root\<rparr>,
                   sent = sent out, printed = printed out\<rparr>))"
  unfolding CacheInstance_init_def Let_def discovery_request_py ..

lemma discovery_succeeds:
  "CacheInstance_init ''bigfoot'' 57776 ''_SYSTEM'' ''SYS''
     (always (Response (Json (JObj [(''namespaces'', JStr ''/csp/sys/dev/namespaces'')]))))
   = \<lparr>result = Inr bigfoot,
      sent = [discovery_request ''bigfoot'' 57776 ''_SYSTEM'' ''SYS''], printed = []\<rparr>"
  by (simp add: CacheInstance_init_fetch fetch_def always_def Root_init_def bigfoot_def)

text \<open>
  Claim C2, as amended: the construction of the client raises \<^verbatim>\<open>CDevException\<close> 44,
  \<^verbatim>\<open>Cannot Connect to Server\<close>, carrying the exception, whenever the discovery request
  raises one, and a response body that is not JSON is such a case (the
  \<^verbatim>\<open>JSONDecodeError\<close> of \<^verbatim>\<open>json.loads\<close>); against a host that cannot be reached it raises
  code 44 as well. It raises code 54, \<^verbatim>\<open>Invalid Server Response\<close>, carrying the
  exception of the subscript, when the body decodes to a JSON value without a usable
  \<^verbatim>\<open>namespaces\<close> field, and when the server answers with an HTTP error status. In all
  these cases no client is produced.
\<close>

theorem discovery_failures:
  "(srv (discovery_request h p u pw) = Raises e \<longrightarrow>
      result (CacheInstance_init h p u pw srv)
        = Inl (CDevException 44 ''Cannot Connect to Server: '' e))
   \<and> (srv (discovery_request h p u pw) = Response (Malformed s) \<longrightarrow>
      result (CacheInstance_init h p u pw srv)
        = Inl (CDevException 44 ''Cannot Connect to Server: '' JSONDecodeError))
   \<and> (srv (discovery_request h p u pw) = URLError reason \<longrightarrow>
      (\<exists>e'. result (CacheInstance_init h p u pw srv)
        = Inl (CDevException 44 ''Cannot Connect to Server: '' e')))
   \<and> (srv (discovery_request h p u pw) = Response (Json v)
       \<and> getitem v ''namespaces'' = Inl e \<longrightarrow>
      result (CacheInstance_init h p u pw srv)
        = Inl (CDevException 54 ''Invalid Server Response: '' e))
   \<and> (srv (discovery_request h p u pw) = HTTPError b \<longrightarrow>
      result (CacheInstance_init h p u pw srv)
        = Inl (CDevException 54 ''Invalid Server Response: '' TypeError))"
  by (simp add: CacheInstance_init_fetch Let_def fetch_def Root_init_def)

text \<open>A timeout, a page that is not JSON, a refused connection, an object without
  \<^verbatim>\<open>namespaces\<close> and an error status.\<close>

theorem discovery_failures_witness:
  "result (CacheInstance_init ''bigfoot'' 57776 ''_SYSTEM'' ''SYS''
            (always (Raises (OtherError ''timed out''))))
     = Inl (CDevException 44 ''Cannot Connect to Server: '' (OtherError ''timed out''))
   \<and> result (CacheInstance_init ''bigfoot'' 57776 ''_SYSTEM'' ''SYS''
              (always (Response (Malformed ''<html>''))))
     = Inl (CDevException 44 ''Cannot Connect to Server: '' JSONDecodeError)
   \<and> (\<exists>e'. result (CacheInstance_init ''bigfoot'' 57776 ''_SYSTEM'' ''SYS''
                   (always (URLError ''Connection refused'')))
          = Inl (CDevException 44 ''Cannot Connect to Server: '' e'))
   \<and> getitem (JObj [(''status'', JStr ''ok'')]) ''namespaces'' = Inl (KeyError ''namespaces'')
   \<and> result (CacheInstance_init ''bigfoot'' 57776 ''_SYSTEM'' ''SYS''
              (always (Response (Json (JObj [(''status'', JStr ''ok'')])))))
     = Inl (CDevException 54 ''Invalid Server Response: '' (KeyError ''namespaces''))
   \<and> result (CacheInstance_init ''bigfoot'' 57776 ''_SYSTEM'' ''SYS''
              (always (HTTPError ''Not Found'')))
     = Inl (CDevException 54 ''Invalid Server Response: '' TypeError)"
  using discovery_failures
      [of "always (Raises (OtherError ''timed out''))" "''bigfoot''" 57776 "''_SYSTEM''" "''SYS''"
          "OtherError ''timed out''"]
    discovery_failures
      [of "always (Response (Malformed ''<html>''))" "''bigfoot''" 57776 "''_SYSTEM''" "''SYS''"
          _ "''<html>''"]
    discovery_failures
      [of "always (URLError ''Connection refused'')" "''bigfoot''" 57776 "''_SYSTEM''" "''SYS''"
          _ _ "''Connection refused''"]
    discovery_failures
      [of "always (Response (Json (JObj [(''status'', JStr ''ok'')])))" "''bigfoot''" 57776
          "''_SYSTEM''" "''SYS''" "KeyError ''namespaces''" _ _ "JObj [(''status'', JStr ''ok'')]"]
    discovery_failures
      [of "always (HTTPError ''Not Found'')" "''bigfoot''" 57776 "''_SYSTEM''" "''SYS''"
          _ _ _ _ "''Not Found''"]
  by (simp add: always_def)

text \<open>
  Claim C2, as stated, gives code 54 to every reachable host whose response cannot be
  parsed into the root shape. A host that answers with a page that is not JSON gets
  code 44: \<^verbatim>\<open>json.loads\<close> runs inside \<^verbatim>\<open>_request\<close>, under the first \<^verbatim>\<open>try\<close>.
\<close>

theorem malformed_discovery_counterexample:
  "result (CacheInstance_init ''bigfoot'' 57776 ''_SYSTEM'' ''SYS''
            (always (Response (Malformed ''<html>''))))
     = Inl (CDevException 44 ''Cannot Connect to Server: '' JSONDecodeError)
   \<and> result (CacheInstance_init ''bigfoot'' 57776 ''_SYSTEM'' ''SYS''
              (always (Response (Malformed ''<html>''))))
     \<noteq> Inl (CDevException 54 ''Invalid Server Response: '' JSONDecodeError)"
  by (simp add: CacheInstance_init_fetch Let_def fetch_def always_def)

section \<open>Operation failures\<close>

lemma request_py_cases:
  "(\<exists>e. request_py self srv url m d = raises e) \<or> (\<exists>r. request_py self srv url m d = fetch srv r)"
  by (cases d; cases url) (auto simp: request_py_def Let_def)

lemma answers_fetch: "answers srv (fetch srv r) v \<Longrightarrow> result (fetch srv r) = Inr v"
  by (simp add: answers_def sent_fetch fetch_Json)

lemma answers_request_py:
  "answers srv (request_py self srv url m d) v \<Longrightarrow> result (request_py self srv url m d) = Inr v"
  using request_py_cases [of self srv url m d]
  by (auto simp: answers_fetch) (simp add: answers_def raises_def)

lemma answers_decode: "answers srv (decode out f) v = answers srv out v"
  by (simp add: answers_def decode_def)

lemma answered_decode:
  "answers srv (decode (request_py self srv url m d) f) v \<Longrightarrow>
     result (decode (request_py self srv url m d) f) = f v"
  by (simp add: answers_decode answers_request_py result_decode)












lemma person_file_fields:
  "ce_id person_file = JStr ''/files/Sample.Person.cls''"
  "ce_content person_file = Some (JStr ''Class Sample.Person {}'')"
  "f_generatedfiles person_file = Some (JStr ''/files/Sample.Person.cls/generated'')"
  "f_xml person_file = Some (JStr ''/xml/Sample.Person.cls'')"
  by (simp_all add: person_file_def)










section \<open>Generated files\<close>

lemma map_exn_content:
  "map_exn File_init items = Inr fs \<Longrightarrow>
     list_all2 (\<lambda>item f. \<exists>kvs. item = JObj kvs \<and> ce_content f = map_of kvs ''content'') items fs"
proof (induction items arbitrary: fs)
  case Nil
  then show ?case by simp
next
  case (Cons item items)
  from Cons.prems obtain f fs' where f: "File_init item = Inr f"
    and fs': "map_exn File_init items = Inr fs'" and fs: "fs = f # fs'"
    by (cases "File_init item"; cases "map_exn File_init items") auto
  from f obtain kvs where kvs: "item = JObj kvs"
    by (cases item) (simp_all add: File_init_def CodeEntity_init_def)
  with f have "ce_content f = map_of kvs ''content''"
    by (auto simp: File_init_JObj split: option.splits)
  with kvs Cons.IH [OF fs'] fs show ?case by simp
qed

text \<open>Without the locator there is no request and the result is the empty list; with
  it, the answer to the GET of the locator is decoded item by item, and each File has
  the \<^verbatim>\<open>content\<close> of its item.\<close>

lemma generated_files_without_locator:
  "f_generatedfiles file = None \<Longrightarrow>
     get_generated_files self srv file = \<lparr>result = Inr [], sent = [], printed = []\<rparr>"
  by (simp add: get_generated_files_def)

lemma generated_files_decoded:
  assumes "answers srv (get_generated_files self srv file) v"
  shows "result (get_generated_files self srv file) = list_comprehension File_init v"
proof (cases "f_generatedfiles file")
  case None
  with assms show ?thesis by (simp add: get_generated_files_def answers_def)
next
  case (Some g)
  with assms show ?thesis by (simp add: get_generated_files_def answered_decode)
qed

lemma generated_files_content:
  "list_comprehension File_init (JArr items) = Inr fs \<Longrightarrow>
     list_all2 (\<lambda>item f. \<exists>kvs. item = JObj kvs \<and> ce_content f = map_of kvs ''content'') items fs"
  by (simp add: list_comprehension_def map_exn_content)


section \<open>Locators\<close>

lemma echoes_request_py: "echoes self url (request_py self srv url m d)"
proof -
  have "\<forall>r \<in> set (sent (request_py self srv url m d)).
          (case url of
             JStr u \<Rightarrow> req_url r = ''http://'' @ host self @ '':'' @ str_int (port self) @ u
           | _ \<Rightarrow> False)"
  proof
    fix r assume "r \<in> set (sent (request_py self srv url m d))"
    from sent_request_py [OF this]
    obtain u where "url = JStr u" "req_url r = url_prefix self @ u" by blast
    then show "case url of
             JStr u \<Rightarrow> req_url r = ''http://'' @ host self @ '':'' @ str_int (port self) @ u
           | _ \<Rightarrow> False"
      by (simp add: url_prefix_def)
  qed
  then show ?thesis by (simp add: echoes_def list_all_iff)
qed

lemma echoes_decode: "echoes self url (decode out f) = echoes self url out"
  by (simp add: echoes_def decode_def)

lemma echoes_raises: "echoes self url (raises e)"
  by (simp add: echoes_def raises_def)

lemma echoes_init:
  "echoes \<lparr>host = h, port = p, username = u, password = pw\<rparr> (JStr ''/csp/sys/dev/'')
     (CacheInstance_init h p u pw srv)"
proof -
  have "sent (CacheInstance_init h p u pw srv)
      = sent (request_py \<lparr>host = h, port = p, username = u, password = pw\<rparr> srv
                (JStr ''/csp/sys/dev/'') ''GET'' NoData)"
    by (simp add: CacheInstance_init_def Let_def split: sum.splits)
  with echoes_request_py [of "\<lparr>host = h, port = p, username = u, password = pw\<rparr>"
      "JStr ''/csp/sys/dev/''" srv "''GET''" NoData]
  show ?thesis by (simp add: echoes_def)
qed

lemma sent_CacheInstance_init:
  "sent (CacheInstance_init h p u pw srv)
     = sent (request_py \<lparr>host = h, port = p, username = u, password = pw\<rparr> srv
               (JStr ''/csp/sys/dev/'') ''GET'' NoData)"
  by (simp add: CacheInstance_init_def Let_def split: sum.splits)

lemma namespaces_bigfoot: "namespaces bigfoot = JStr ''/csp/sys/dev/namespaces''"
  by (simp add: bigfoot_def)

lemma url_prefix_test:
  "url_prefix \<lparr>host = ''bigfoot'', port = 57776, username = u, password = pw\<rparr>
     = ''http://bigfoot:57776''"
  by (simp add: url_prefix_def str_int_def decimal_small decimal_large digit_char_def)

lemma samples_fields:
  "ns_files samples = JStr ''/csp/sys/dev/namespaces/SAMPLES/files''"
  "ns_xml samples = JStr ''/csp/sys/dev/namespaces/SAMPLES/xml''"
  "ns_queries samples = JStr ''/csp/sys/dev/namespaces/SAMPLES/queries''"
  by (simp_all add: samples_def)

text \<open>
  Claim C6: for every request issued by a client method (and by the construction), the
  URL is the text \<^verbatim>\<open>http://{host}:{port}\<close> followed by the locator of the resource, as
  it is: \<^verbatim>\<open>self.namespaces\<close>; the \<^verbatim>\<open>files\<close>, \<^verbatim>\<open>xml\<close> or \<^verbatim>\<open>queries\<close> of the namespace; the
  \<^verbatim>\<open>id\<close>, \<^verbatim>\<open>generatedfiles\<close> or \<^verbatim>\<open>xml\<close> of the file; the \<^verbatim>\<open>id\<close> of the XML document; the
  \<^verbatim>\<open>id\<close> or \<^verbatim>\<open>plan\<close> of the query.
\<close>

theorem locators_are_echoed:
  "echoes \<lparr>host = h, port = p, username = u, password = pw\<rparr> (JStr ''/csp/sys/dev/'')
     (CacheInstance_init h p u pw srv)
   \<and> echoes self (namespaces self) (get_namespaces self srv)
   \<and> echoes self (ns_files namespace) (get_files self srv namespace)
   \<and> echoes self (ce_id file) (get_file self srv file)
   \<and> echoes self (ce_id file) (put_file self srv file)
   \<and> echoes self (ns_files namespace) (add_file self srv namespace filename filecontent)
   \<and> echoes self (ce_id file) (compile_file self srv file spec)
   \<and> (case f_generatedfiles file of
        Some g \<Rightarrow> echoes self g (get_generated_files self srv file)
      | None \<Rightarrow> sent (get_generated_files self srv file) = [])
   \<and> (case f_xml file of
        Some x \<Rightarrow> echoes self x (get_xml self srv file)
      | None \<Rightarrow> sent (get_xml self srv file) = [])
   \<and> echoes self (ce_id xml) (put_xml self srv xml)
   \<and> echoes self (ns_xml namespace) (add_xml self srv namespace content)
   \<and> echoes self (ns_queries namespace) (add_query self srv namespace text)
   \<and> echoes self (ce_id query) (execute_query self srv query)
   \<and> echoes self (q_plan query) (get_query_plan self srv query)"
proof (intro conjI)
  show "echoes \<lparr>host = h, port = p, username = u, password = pw\<rparr> (JStr ''/csp/sys/dev/'')
     (CacheInstance_init h p u pw srv)"
    by (rule echoes_init)
  show "echoes self (namespaces self) (get_namespaces self srv)"
    by (simp add: get_namespaces_def echoes_decode echoes_request_py)
  show "echoes self (ns_files namespace) (get_files self srv namespace)"
    by (simp add: get_files_def echoes_decode echoes_request_py)
  show "echoes self (ce_id file) (get_file self srv file)"
    by (simp add: get_file_def echoes_decode echoes_request_py)
  show "echoes self (ce_id file) (put_file self srv file)"
    by (simp add: put_file_def echoes_decode echoes_request_py)
  show "echoes self (ns_files namespace) (add_file self srv namespace filename filecontent)"
    by (simp add: add_file_def echoes_decode echoes_request_py)
  show "echoes self (ce_id file) (compile_file self srv file spec)"
    by (simp add: compile_file_def echoes_decode echoes_request_py)
  show "case f_generatedfiles file of
        Some g \<Rightarrow> echoes self g (get_generated_files self srv file)
      | None \<Rightarrow> sent (get_generated_files self srv file) = []"
    by (simp add: get_generated_files_def echoes_decode echoes_request_py split: option.splits)
  show "case f_xml file of
        Some x \<Rightarrow> echoes self x (get_xml self srv file)
      | None \<Rightarrow> sent (get_xml self srv file) = []"
    by (simp add: get_xml_def echoes_decode echoes_request_py raises_def split: option.splits)
  show "echoes self (ce_id xml) (put_xml self srv xml)"
    by (simp add: put_xml_def echoes_decode echoes_request_py echoes_raises split: option.splits)
  show "echoes self (ns_xml namespace) (add_xml self srv namespace content)"
    by (simp add: add_xml_def echoes_decode echoes_request_py)
  show "echoes self (ns_queries namespace) (add_query self srv namespace text)"
    by (simp add: add_query_def echoes_decode echoes_request_py)
  show "echoes self (ce_id query) (execute_query self srv query)"
    by (simp add: execute_query_def echoes_decode echoes_request_py)
  show "echoes self (q_plan query) (get_query_plan self srv query)"
    by (simp add: get_query_plan_def echoes_decode echoes_request_py)
qed

text \<open>The URLs of the sample: each is the prefix \<^verbatim>\<open>http://bigfoot:57776\<close> and the
  locator.\<close>

theorem locators_are_echoed_witness:
  "map req_url (sent (CacheInstance_init ''bigfoot'' 57776 ''_SYSTEM'' ''SYS'' (always (HTTPError ''Not Found''))))
     = [''http://bigfoot:57776/csp/sys/dev/'']
   \<and> map req_url (sent (get_namespaces bigfoot (always (HTTPError ''Not Found''))))
     = [''http://bigfoot:57776/csp/sys/dev/namespaces'']
   \<and> map req_url (sent (get_files bigfoot (always (HTTPError ''Not Found'')) samples))
     = [''http://bigfoot:57776/csp/sys/dev/namespaces/SAMPLES/files'']
   \<and> map req_url (sent (get_file bigfoot (always (HTTPError ''Not Found'')) person_file))
     = [''http://bigfoot:57776/files/Sample.Person.cls'']
   \<and> map req_url (sent (get_generated_files bigfoot (always (HTTPError ''Not Found'')) person_file))
     = [''http://bigfoot:57776/files/Sample.Person.cls/generated'']
   \<and> map req_url (sent (get_xml bigfoot (always (HTTPError ''Not Found'')) person_file))
     = [''http://bigfoot:57776/xml/Sample.Person.cls'']
   \<and> map req_url (sent (add_query bigfoot (always (HTTPError ''Not Found'')) samples (JStr ''SELECT 1'')))
     = [''http://bigfoot:57776/csp/sys/dev/namespaces/SAMPLES/queries'']
   \<and> echoes bigfoot (JStr ''/files/Sample.Person.cls'')
       (get_file bigfoot (always (HTTPError ''Not Found'')) person_file)"
proof -
  have "echoes bigfoot (ce_id person_file)
          (get_file bigfoot (always (HTTPError ''Not Found'')) person_file)"
    using locators_are_echoed
      [of _ _ _ _ "always (HTTPError ''Not Found'')" bigfoot _ person_file]
    by blast
  then show ?thesis
    by (simp add: sent_CacheInstance_init get_namespaces_def get_files_def get_file_def
        get_generated_files_def get_xml_def add_query_def sent_decode request_py_get
        request_py_dict sent_fetch url_prefix_bigfoot person_file_fields samples_fields
        namespaces_bigfoot url_prefix_test)
qed

end
